theory Spec2Isabelle
  imports Main
begin

section \<open>Host values and the native heap\<close>

text \<open>
  The unit under verification is \<^verbatim>\<open>shell/common/native_mate_converters/callback.cc\<close>.
  An isolate (\<^verbatim>\<open>v8::Isolate*\<close>) and a native pointer are identified by a number.
\<close>

type_synonym isolate = nat
type_synonym addr = nat

text \<open>
  The only function template this file creates is the one for \<^verbatim>\<open>CallTranslater\<close>
  (\<^verbatim>\<open>mate::CreateFunctionTemplate(isolate, base::BindRepeating(&CallTranslater))\<close>);
  a template remembers the isolate it was created in.
\<close>

datatype FunctionTemplate = CallTranslaterTemplate isolate

datatype v8_value =
    V8Undefined
  | V8Boolean bool
  | V8Number int
  | V8String string
  | V8External addr
  | V8Object nat
  | V8Function FunctionTemplate
  | V8BoundFunction v8_value v8_value "v8_value list"

text \<open>\<^verbatim>\<open>mate::Arguments\<close>: the isolate of the call and the values the caller supplied.\<close>

record Arguments =
  args_isolate :: isolate
  argv :: "v8_value list"

text \<open>Undefined behaviour of the C++ program is a value of the model.\<close>

datatype fault = UseAfterFree | DoubleFree | NullDeref | NullCallback | CheckFailed

text \<open>
  A slot of the engine's table of persistent handles: the value it refers to and, after
  \<^verbatim>\<open>SetWeak(parameter, callback, kFinalizer)\<close>, the parameter the weak callback will be
  given.  The only weak callback registered in this file is \<^verbatim>\<open>TranslaterHolder::GC\<close>.
\<close>

record GlobalSlot =
  referent :: v8_value
  weak_parameter :: "addr option"

text \<open>
  \<^verbatim>\<open>struct TranslaterHolder { v8::Global<v8::External> handle; Translater translater; }\<close>.
  A \<^verbatim>\<open>v8::Global\<close> member is empty or names its slot; a \<^verbatim>\<open>Translater\<close>
  (a \<^verbatim>\<open>base::Callback\<close>) is null until one is assigned.
\<close>

record 't TranslaterHolder =
  handle :: "nat option"
  translater :: "'t option"

text \<open>
  Ghost events, appended at the two call sites \<^verbatim>\<open>holder->translater.Run(args)\<close> and
  \<^verbatim>\<open>delete\<close>; the latter records which of the two deleting paths ran.
\<close>

datatype path = Finalizer | OneShotDelete

datatype event = Ran addr Arguments | Destroyed addr path

record ('t, 'n) process =
  holders :: "addr \<Rightarrow> 't TranslaterHolder option"
  next_addr :: addr
  global_handles :: "nat \<Rightarrow> GlobalSlot option"
  next_handle :: nat
  objects :: "nat \<Rightarrow> string \<Rightarrow> v8_value option"
  next_object :: nat
  g_call_translater :: "FunctionTemplate option"
  pending_exception :: "string option"
  native :: 'n
  trace :: "event list"

section \<open>The engine's interface\<close>

text \<open>
  Modelled from the spec: the persistent-handle and weak-reference interface of the host
  engine (\<^verbatim>\<open>v8::Global\<close>), which is not part of this file.  A new handle takes a fresh
  slot; \<^verbatim>\<open>SetWeak\<close> registers the finalizer parameter on the slot, \<^verbatim>\<open>ClearWeak\<close>
  removes the registration, \<^verbatim>\<open>Reset\<close> gives the slot back.
\<close>

definition Global_New :: "v8_value \<Rightarrow> ('t, 'n) process \<Rightarrow> nat \<times> ('t, 'n) process" where
  "Global_New v w =
     (next_handle w,
      w\<lparr>global_handles := (global_handles w)
           (next_handle w \<mapsto> \<lparr>referent = v, weak_parameter = None\<rparr>),
        next_handle := Suc (next_handle w)\<rparr>)"

definition SetWeak :: "nat \<Rightarrow> addr \<Rightarrow> ('t, 'n) process \<Rightarrow> ('t, 'n) process" where
  "SetWeak s p w =
     (case global_handles w s of
        None \<Rightarrow> w
      | Some sl \<Rightarrow> w\<lparr>global_handles := (global_handles w)(s \<mapsto> sl\<lparr>weak_parameter := Some p\<rparr>)\<rparr>)"

definition ClearWeak :: "nat \<Rightarrow> ('t, 'n) process \<Rightarrow> ('t, 'n) process" where
  "ClearWeak s w =
     (case global_handles w s of
        None \<Rightarrow> w
      | Some sl \<Rightarrow> w\<lparr>global_handles := (global_handles w)(s \<mapsto> sl\<lparr>weak_parameter := None\<rparr>)\<rparr>)"

definition Reset :: "nat \<Rightarrow> ('t, 'n) process \<Rightarrow> ('t, 'n) process" where
  "Reset s w = w\<lparr>global_handles := (global_handles w)(s := None)\<rparr>"

text \<open>
  Modelled from the spec: the metadata record is "a small record/dictionary value type with
  get/set-by-key" (\<^verbatim>\<open>v8::Object\<close>, \<^verbatim>\<open>mate::Dictionary\<close>); \<^verbatim>\<open>Has\<close> asks whether the key
  is present in the record.
\<close>

definition Has :: "nat \<Rightarrow> string \<Rightarrow> ('t, 'n) process \<Rightarrow> bool" where
  "Has obj key w = (objects w obj key \<noteq> None)"

definition Set_key :: "nat \<Rightarrow> string \<Rightarrow> v8_value \<Rightarrow> ('t, 'n) process \<Rightarrow> ('t, 'n) process" where
  "Set_key obj key v w = w\<lparr>objects := (objects w)(obj := (objects w obj)(key \<mapsto> v))\<rparr>"

definition CreateEmpty :: "('t, 'n) process \<Rightarrow> nat \<times> ('t, 'n) process" where
  "CreateEmpty w =
     (next_object w,
      w\<lparr>objects := (objects w)(next_object w := Map.empty),
        next_object := Suc (next_object w)\<rparr>)"

text \<open>
  \<^verbatim>\<open>args->ThrowError(message)\<close> schedules a host exception on the isolate; it is not a C++
  exception, the native code goes on.
\<close>

definition ThrowError :: "string \<Rightarrow> ('t, 'n) process \<Rightarrow> ('t, 'n) process" where
  "ThrowError message w = w\<lparr>pending_exception := Some message\<rparr>"

section \<open>TranslaterHolder\<close>

text \<open>
  The constructor: \<^verbatim>\<open>handle(isolate, v8::External::New(isolate, this))\<close>, then
  \<^verbatim>\<open>handle.SetWeak(this, &GC, v8::WeakCallbackType::kFinalizer)\<close>.  The translater member
  starts out null.  \<^verbatim>\<open>new\<close> hands out the next address that has never been used.
\<close>

definition new_TranslaterHolder :: "isolate \<Rightarrow> ('t, 'n) process \<Rightarrow> addr \<times> ('t, 'n) process" where
  "new_TranslaterHolder isolate w =
     (let this = next_addr w;
          (s, w1) = Global_New (V8External this) w;
          w2 = SetWeak s this w1
      in (this,
          w2\<lparr>holders := (holders w2)(this \<mapsto> \<lparr>handle = Some s, translater = None\<rparr>),
             next_addr := Suc this\<rparr>))"

text \<open>
  \<^verbatim>\<open>delete holder\<close>: the destructor (\<^verbatim>\<open>if (!handle.IsEmpty()) { handle.ClearWeak();
  handle.Reset(); }\<close>) and then the release of the memory.  Deleting a pointer that is not
  a live holder is undefined behaviour.
\<close>

definition delete_TranslaterHolder ::
  "path \<Rightarrow> addr \<Rightarrow> ('t, 'n) process \<Rightarrow> fault + ('t, 'n) process" where
  "delete_TranslaterHolder via this w =
     (case holders w this of
        None \<Rightarrow> Inl DoubleFree
      | Some h \<Rightarrow>
          (let w1 = (case handle h of None \<Rightarrow> w | Some s \<Rightarrow> Reset s (ClearWeak s w))
           in Inr (w1\<lparr>holders := (holders w1)(this := None),
                      trace := trace w1 @ [Destroyed this via]\<rparr>)))"

text \<open>\<^verbatim>\<open>static void GC(const v8::WeakCallbackInfo<TranslaterHolder>& data)\<close>.\<close>

definition GC :: "addr \<Rightarrow> ('t, 'n) process \<Rightarrow> fault + ('t, 'n) process" where
  "GC parameter w = delete_TranslaterHolder Finalizer parameter w"

text \<open>
  Modelled from the spec: the collector's notification ("fires after the referent becomes
  unreachable, guaranteed single call").  It calls the weak callback registered on the
  slot, if the slot still exists and still has one.
\<close>

definition FireWeakCallback :: "nat \<Rightarrow> ('t, 'n) process \<Rightarrow> fault + ('t, 'n) process" where
  "FireWeakCallback s w =
     (case global_handles w s of
        None \<Rightarrow> Inr w
      | Some sl \<Rightarrow> (case weak_parameter sl of None \<Rightarrow> Inr w | Some p \<Rightarrow> GC p w))"

section \<open>CallTranslater\<close>

text \<open>
  \<^verbatim>\<open>Translater::Run\<close> is a parameter: \<open>run t args\<close> is what running the native callback
  \<open>t\<close> on \<open>args\<close> does to the process.  The two bound parameters of \<^verbatim>\<open>CallTranslater\<close>
  are given as the pointer that the external wraps (\<^verbatim>\<open>external->Value()\<close>) and the identity
  of the state object.  \<^verbatim>\<open>Has\<close> and \<^verbatim>\<open>Set\<close> on an ordinary object do not fail, so
  \<^verbatim>\<open>ToChecked()\<close> has no failing branch.  The callback is run through the pointer: a
  holder that has been freed, or one whose callback is null, is undefined behaviour.
\<close>

type_synonym ('t, 'n) runner =
  "'t \<Rightarrow> Arguments \<Rightarrow> ('t, 'n) process \<Rightarrow> fault + ('t, 'n) process"

definition CallTranslater ::
  "('t, 'n) runner \<Rightarrow> addr \<Rightarrow> nat \<Rightarrow> Arguments \<Rightarrow> ('t, 'n) process \<Rightarrow> fault + ('t, 'n) process" where
  "CallTranslater run external state args w =
     (let one_time = Has state ''oneTime'' w in
      if one_time \<and> Has state ''called'' w then Inr (ThrowError ''callback can only be called for once'' w)
      else
        (let w1 = (if one_time then Set_key state ''called'' (V8Boolean True) w else w) in
         case holders w1 external of
           None \<Rightarrow> Inl UseAfterFree
         | Some holder \<Rightarrow>
            (case translater holder of
               None \<Rightarrow> Inl NullCallback
             | Some t \<Rightarrow>
                (case run t args (w1\<lparr>trace := trace w1 @ [Ran external args]\<rparr>) of
                   Inl f \<Rightarrow> Inl f
                 | Inr w2 \<Rightarrow>
                     if one_time then delete_TranslaterHolder OneShotDelete external w2
                     else Inr w2))))"

section \<open>Calling a generated function from script\<close>

text \<open>
  Modelled from the spec: what the host does when script calls a value made by
  \<^verbatim>\<open>BindFunctionWith\<close> ("calling the returned value with arbitrary scripted arguments
  invokes the Trampoline with those two bound values prepended").  The two bound values are
  converted to the \<^verbatim>\<open>v8::Local<v8::External>\<close> and \<^verbatim>\<open>v8::Local<v8::Object>\<close>
  parameters of \<^verbatim>\<open>CallTranslater\<close>; \<^verbatim>\<open>external->Value()\<close> is the wrapped pointer.
  Any other value is not callable this way and the host raises a type error.
\<close>

definition Call ::
  "('t, 'n) runner \<Rightarrow> v8_value \<Rightarrow> Arguments \<Rightarrow> ('t, 'n) process \<Rightarrow> fault + ('t, 'n) process" where
  "Call run f args w =
     (case f of
        V8BoundFunction (V8Function tmpl) this [V8External external, V8Object state] \<Rightarrow>
          CallTranslater run external state args w
      | _ \<Rightarrow> Inr (ThrowError ''TypeError'' w))"

text \<open>
  Modelled from the spec: an exception scheduled by the native code is "surfaced to the
  scripted caller as a catchable host error" when the native function returns; the caller
  catches it, so nothing stays pending.
\<close>

datatype outcome = Returned | Threw string

definition invoke ::
  "('t, 'n) runner \<Rightarrow> v8_value \<Rightarrow> Arguments \<Rightarrow> ('t, 'n) process
     \<Rightarrow> fault + (outcome \<times> ('t, 'n) process)" where
  "invoke run f args w =
     (case Call run f args w of
        Inl e \<Rightarrow> Inl e
      | Inr w' \<Rightarrow>
          (case pending_exception w' of
             None \<Rightarrow> Inr (Returned, w')
           | Some m \<Rightarrow> Inr (Threw m, w'\<lparr>pending_exception := None\<rparr>)))"

text \<open>Invoking several times in a row; the outcomes are collected in order.\<close>

fun invokes ::
  "('t, 'n) runner \<Rightarrow> v8_value \<Rightarrow> Arguments list \<Rightarrow> ('t, 'n) process
     \<Rightarrow> fault + (outcome list \<times> ('t, 'n) process)" where
  "invokes run f [] w = Inr ([], w)"
| "invokes run f (args # rest) w =
     (case invoke run f args w of
        Inl e \<Rightarrow> Inl e
      | Inr (out, w') \<Rightarrow>
          (case invokes run f rest w' of
             Inl e \<Rightarrow> Inl e
           | Inr (outs, w'') \<Rightarrow> Inr (out # outs, w'')))"

text \<open>
  Two kinds of native callback.  \<open>native_run body\<close> is a callback that works on native
  state only: \<open>body t args n\<close> gives the new native state and, if the callback signals a
  host-visible error (\<^verbatim>\<open>args->ThrowError\<close>), its message.  \<open>reentrant inner f args'\<close>
  is a callback whose body calls the host function \<open>f\<close> on \<open>args'\<close>.
\<close>

definition native_run :: "('t \<Rightarrow> Arguments \<Rightarrow> 'n \<Rightarrow> 'n \<times> string option) \<Rightarrow> ('t, 'n) runner" where
  "native_run body t args w =
     (case body t args (native w) of
        (n', None) \<Rightarrow> Inr (w\<lparr>native := n'\<rparr>)
      | (n', Some m) \<Rightarrow> Inr (ThrowError m (w\<lparr>native := n'\<rparr>)))"

definition reentrant :: "('t, 'n) runner \<Rightarrow> v8_value \<Rightarrow> Arguments \<Rightarrow> ('t, 'n) runner" where
  "reentrant inner f args' t args w = Call inner f args' w"

section \<open>CreateFunctionFromTranslater\<close>

definition CreateFunctionTemplate :: "isolate \<Rightarrow> FunctionTemplate" where
  "CreateFunctionTemplate isolate = CallTranslaterTemplate isolate"

text \<open>\<^verbatim>\<open>handle.Get(isolate)\<close>: a local reference to what the slot refers to, empty if none.\<close>

definition Global_Get :: "nat option \<Rightarrow> ('t, 'n) process \<Rightarrow> v8_value option" where
  "Global_Get g w =
     (case g of None \<Rightarrow> None | Some s \<Rightarrow> map_option referent (global_handles w s))"

text \<open>
  \<^verbatim>\<open>BindFunctionWith\<close> is \<^verbatim>\<open>func.bind(func, arg1, arg2)\<close>: the bound function has \<open>func\<close>
  as target and as receiver.  Its first parameter is a \<^verbatim>\<open>v8::Local<v8::Function>\<close>.
\<close>

definition BindFunctionWith :: "v8_value \<Rightarrow> v8_value \<Rightarrow> v8_value \<Rightarrow> fault + v8_value" where
  "BindFunctionWith func arg1 arg2 =
     (case func of
        V8Function tmpl \<Rightarrow> Inr (V8BoundFunction func func [arg1, arg2])
      | V8BoundFunction target this bound \<Rightarrow> Inr (V8BoundFunction func func [arg1, arg2])
      | _ \<Rightarrow> Inl CheckFailed)"

definition CreateFunctionFromTranslater ::
  "isolate \<Rightarrow> 't \<Rightarrow> bool \<Rightarrow> ('t, 'n) process \<Rightarrow> fault + (v8_value \<times> ('t, 'n) process)" where
  "CreateFunctionFromTranslater isolate translater' one_time w =
     (let w1 = (if g_call_translater w = None
                then w\<lparr>g_call_translater := Some (CreateFunctionTemplate isolate)\<rparr>
                else w)
      in case g_call_translater w1 of
           None \<Rightarrow> Inl NullDeref
         | Some call_translater \<Rightarrow>
            (let (holder, w2) = new_TranslaterHolder isolate w1;
                 w3 = w2\<lparr>holders := (holders w2)
                        (holder := map_option (\<lambda>h. h\<lparr>translater := Some translater'\<rparr>)
                                     (holders w2 holder))\<rparr>;
                 (state, w4) = CreateEmpty w3;
                 w5 = (if one_time then Set_key state ''oneTime'' (V8Boolean True) w4 else w4)
             in case holders w5 holder of
                  None \<Rightarrow> Inl UseAfterFree
                | Some h \<Rightarrow>
                   (case Global_Get (handle h) w5 of
                      None \<Rightarrow> Inl NullDeref
                    | Some external \<Rightarrow>
                       (case BindFunctionWith (V8Function call_translater) external (V8Object state) of
                          Inl e \<Rightarrow> Inl e
                        | Inr f \<Rightarrow> Inr (f, w5)))))"

section \<open>Auxiliary notions for the proofs\<close>

text \<open>The message of the error that \<^verbatim>\<open>CallTranslater\<close> throws.\<close>

definition already_called :: string where
  "already_called = ''callback can only be called for once''"

text \<open>
  What \<^verbatim>\<open>CreateFunctionFromTranslater\<close> returns and the process it leaves, in closed form
  (lemma \<open>Create_eq\<close>).
\<close>

definition created_template :: "isolate \<Rightarrow> ('t, 'n) process \<Rightarrow> FunctionTemplate" where
  "created_template isolate w =
     (case g_call_translater w of None \<Rightarrow> CreateFunctionTemplate isolate | Some T \<Rightarrow> T)"

definition created_function :: "isolate \<Rightarrow> ('t, 'n) process \<Rightarrow> v8_value" where
  "created_function isolate w =
     V8BoundFunction (V8Function (created_template isolate w)) (V8Function (created_template isolate w))
       [V8External (next_addr w), V8Object (next_object w)]"

definition created_process :: "isolate \<Rightarrow> 't \<Rightarrow> bool \<Rightarrow> ('t, 'n) process \<Rightarrow> ('t, 'n) process" where
  "created_process isolate t one_time w =
       w\<lparr>holders := (holders w)(next_addr w \<mapsto> \<lparr>handle = Some (next_handle w), translater = Some t\<rparr>),
         next_addr := Suc (next_addr w),
         global_handles := (global_handles w)(next_handle w \<mapsto> \<lparr>referent = V8External (next_addr w), weak_parameter = Some (next_addr w)\<rparr>),
         next_handle := Suc (next_handle w),
         objects := (objects w)(next_object w := (if one_time then [''oneTime'' \<mapsto> V8Boolean True] else Map.empty)),
         next_object := Suc (next_object w),
         g_call_translater := Some (created_template isolate w)\<rparr>"

text \<open>
  Two phases of a generated function whose holder is at \<open>a\<close>, with slot \<open>s\<close>, metadata
  record \<open>st\<close> and callback \<open>t\<close>: not yet deleted and not marked (as creation leaves it),
  and deleted by the one-shot path.
\<close>

definition live :: "addr \<Rightarrow> nat \<Rightarrow> nat \<Rightarrow> 't \<Rightarrow> bool \<Rightarrow> ('t, 'n) process \<Rightarrow> bool" where
  "live a s st t one_time w \<longleftrightarrow>
     holders w a = Some \<lparr>handle = Some s, translater = Some t\<rparr> \<and>
     global_handles w s = Some \<lparr>referent = V8External a, weak_parameter = Some a\<rparr> \<and>
     Has st ''oneTime'' w = one_time \<and> \<not> Has st ''called'' w"

definition spent :: "addr \<Rightarrow> nat \<Rightarrow> nat \<Rightarrow> ('t, 'n) process \<Rightarrow> bool" where
  "spent a s st w \<longleftrightarrow>
     holders w a = None \<and> global_handles w s = None \<and>
     Has st ''oneTime'' w \<and> Has st ''called'' w"


text \<open>
  A concrete run, used to evaluate the code: a process in which nothing has been allocated
  yet, and a native callback that appends the arguments it is run with to the native
  state and signals no error.
\<close>

definition init :: "(nat, Arguments list) process" where
  "init = \<lparr>holders = Map.empty, next_addr = 0, global_handles = Map.empty, next_handle = 0,
     objects = (\<lambda>_. Map.empty), next_object = 0, g_call_translater = None,
     pending_exception = None, native = [], trace = []\<rparr>"

definition record_call :: "nat \<Rightarrow> Arguments \<Rightarrow> Arguments list \<Rightarrow> Arguments list \<times> string option" where
  "record_call t args seen = (seen @ [args], None)"

definition scenario ::
  "bool \<Rightarrow> Arguments list \<Rightarrow> fault + (outcome list \<times> (nat, Arguments list) process)" where
  "scenario one_time argss =
     (case CreateFunctionFromTranslater 0 0 one_time init of
        Inl e \<Rightarrow> Inl e
      | Inr (fn, w1) \<Rightarrow> invokes (native_run record_call) fn argss w1)"

definition failing_call :: "nat \<Rightarrow> Arguments \<Rightarrow> Arguments list \<Rightarrow> Arguments list \<times> string option" where
  "failing_call t args seen = (seen @ [args], Some ''native failure'')"

text \<open>
  The life of one generated function, as the host sees it: script invokes it, and at some
  point the collector finds it unreachable and notifies the weak callback of the holder's
  slot.  What is unreachable cannot be invoked any more.
\<close>

datatype lifecycle_event = Invoked Arguments | Unreachable

fun lifecycle ::
  "('t, 'n) runner \<Rightarrow> v8_value \<Rightarrow> nat \<Rightarrow> lifecycle_event list \<Rightarrow> ('t, 'n) process
     \<Rightarrow> fault + ('t, 'n) process" where
  "lifecycle run fn s [] w = Inr w"
| "lifecycle run fn s (Invoked args # es) w =
     (case invoke run fn args w of
        Inl e \<Rightarrow> Inl e
      | Inr (out, w') \<Rightarrow> lifecycle run fn s es w')"
| "lifecycle run fn s (Unreachable # es) w =
     (case FireWeakCallback s w of
        Inl e \<Rightarrow> Inl e
      | Inr w' \<Rightarrow> lifecycle run fn s es w')"

fun reachable_while_invoked :: "lifecycle_event list \<Rightarrow> bool" where
  "reachable_while_invoked [] = True"
| "reachable_while_invoked (Invoked args # es) = reachable_while_invoked es"
| "reachable_while_invoked (Unreachable # es) = (set es \<subseteq> {Unreachable})"

text \<open>The paths by which the holder at \<open>a\<close> was destroyed, in order, according to a trace.\<close>

fun destructions :: "addr \<Rightarrow> event list \<Rightarrow> path list" where
  "destructions a [] = []"
| "destructions a (Ran b args # evs) = destructions a evs"
| "destructions a (Destroyed b via # evs) =
     (if a = b then via # destructions a evs else destructions a evs)"

text \<open>
  The first event of a life that ends the holder: the collector's notification, or the
  first invocation when the function is one-shot.
\<close>

fun ending :: "bool \<Rightarrow> lifecycle_event list \<Rightarrow> path list" where
  "ending one_time [] = []"
| "ending one_time (Unreachable # es) = [Finalizer]"
| "ending one_time (Invoked args # es) = (if one_time then [OneShotDelete] else ending one_time es)"

text \<open>
  Any sequence of this file's operations on one process: functions are generated (for
  any isolate), values are invoked, the collector notifies slots.
\<close>

datatype 't operation = OpCreate isolate 't bool | OpInvoke v8_value Arguments | OpCollect nat

fun perform ::
  "('t \<Rightarrow> Arguments \<Rightarrow> 'n \<Rightarrow> 'n \<times> string option) \<Rightarrow> 't operation \<Rightarrow> ('t, 'n) process
     \<Rightarrow> fault + (v8_value list \<times> ('t, 'n) process)" where
  "perform body (OpCreate isolate t one_time) w =
     (case CreateFunctionFromTranslater isolate t one_time w of
        Inl e \<Rightarrow> Inl e
      | Inr (fn, w') \<Rightarrow> Inr ([fn], w'))"
| "perform body (OpInvoke fn args) w =
     (case invoke (native_run body) fn args w of
        Inl e \<Rightarrow> Inl e
      | Inr (out, w') \<Rightarrow> Inr ([], w'))"
| "perform body (OpCollect s) w =
     (case FireWeakCallback s w of
        Inl e \<Rightarrow> Inl e
      | Inr w' \<Rightarrow> Inr ([], w'))"

text \<open>\<open>performs\<close> returns the functions generated along the way, in order.\<close>

fun performs ::
  "('t \<Rightarrow> Arguments \<Rightarrow> 'n \<Rightarrow> 'n \<times> string option) \<Rightarrow> 't operation list \<Rightarrow> ('t, 'n) process
     \<Rightarrow> fault + (v8_value list \<times> ('t, 'n) process)" where
  "performs body [] w = Inr ([], w)"
| "performs body (op # ops) w =
     (case perform body op w of
        Inl e \<Rightarrow> Inl e
      | Inr (fns, w') \<Rightarrow>
          (case performs body ops w' of
             Inl e \<Rightarrow> Inl e
           | Inr (fns', w'') \<Rightarrow> Inr (fns @ fns', w'')))"

text \<open>The template a generated function is an instance of.\<close>

fun instance_of :: "v8_value \<Rightarrow> FunctionTemplate option" where
  "instance_of (V8BoundFunction (V8Function T) this bound) = Some T"
| "instance_of v = None"

section \<open>SafeV8Function\<close>

text \<open>
  \<^verbatim>\<open>content::BrowserThread\<close> names the UI and the IO thread; any other thread is a worker.
  \<^verbatim>\<open>BrowserThread::CurrentlyOn(identifier)\<close> compares with the thread that is running.
\<close>

datatype thread = UI | IO | Worker nat

definition CurrentlyOn :: "thread \<Rightarrow> thread \<Rightarrow> bool" where
  "CurrentlyOn current identifier = (current = identifier)"

text \<open>
  \<^verbatim>\<open>RefCountedGlobal<T>\<close>: the member \<^verbatim>\<open>v8::Global<T> handle_\<close>, empty or holding a
  value, and the reference count of its base class.  A name cannot end in an underscore
  here: \<^verbatim>\<open>handle_\<close> is written \<open>handle'\<close>, and \<^verbatim>\<open>v8_function_\<close> below \<open>v8_function'\<close>.
\<close>

record RefCountedGlobal =
  handle' :: "v8_value option"
  ref_count :: nat

text \<open>
  The part of the process these classes work on: the heap of \<^verbatim>\<open>RefCountedGlobal\<close>
  objects, \<^verbatim>\<open>Locker::IsBrowserProcess()\<close>, the deletions posted to the UI thread and
  not yet run, and (ghost) every deletion that ran, with the thread it ran on.
\<close>

record refs =
  globals :: "addr \<Rightarrow> RefCountedGlobal option"
  next_global :: addr
  IsBrowserProcess :: bool
  ui_tasks :: "addr list"
  released :: "(addr \<times> thread) list"

definition delete_RefCountedGlobal :: "thread \<Rightarrow> addr \<Rightarrow> refs \<Rightarrow> fault + refs" where
  "delete_RefCountedGlobal current x w =
     (case globals w x of
        None \<Rightarrow> Inl DoubleFree
      | Some g \<Rightarrow> Inr (w\<lparr>globals := (globals w)(x := None),
                        released := released w @ [(x, current)]\<rparr>))"

text \<open>
  Modelled from the spec: \<^verbatim>\<open>BrowserThread::DeleteSoon(BrowserThread::UI, FROM_HERE, x)\<close>,
  the "run this on the designated owner thread" primitive: the deletion is posted, "a
  fire-and-forget post, not a wait", and the UI thread runs what was posted to it.
\<close>

definition DeleteSoon :: "addr \<Rightarrow> refs \<Rightarrow> refs" where
  "DeleteSoon x w = w\<lparr>ui_tasks := ui_tasks w @ [x]\<rparr>"

fun run_tasks :: "addr list \<Rightarrow> refs \<Rightarrow> fault + refs" where
  "run_tasks [] w = Inr w"
| "run_tasks (x # xs) w =
     (case delete_RefCountedGlobal UI x w of
        Inl e \<Rightarrow> Inl e
      | Inr w' \<Rightarrow> run_tasks xs w')"

definition RunUITasks :: "refs \<Rightarrow> fault + refs" where
  "RunUITasks w = run_tasks (ui_tasks w) (w\<lparr>ui_tasks := []\<rparr>)"

text \<open>\<^verbatim>\<open>DeleteOnUIThread::Destruct\<close>, run by the thread \<open>current\<close>.\<close>

definition Destruct :: "thread \<Rightarrow> addr \<Rightarrow> refs \<Rightarrow> fault + refs" where
  "Destruct current x w =
     (if IsBrowserProcess w \<and> \<not> CurrentlyOn current UI
      then Inr (DeleteSoon x w)
      else delete_RefCountedGlobal current x w)"

text \<open>
  Modelled from the spec: the reference counting of \<^verbatim>\<open>base::RefCountedThreadSafe\<close>, which
  is not part of this file ("destroyed when the last ref-count holder drops, via a
  destruction policy").
\<close>

definition AddRef :: "addr \<Rightarrow> refs \<Rightarrow> fault + refs" where
  "AddRef x w =
     (case globals w x of
        None \<Rightarrow> Inl UseAfterFree
      | Some g \<Rightarrow> Inr (w\<lparr>globals := (globals w)(x \<mapsto> g\<lparr>ref_count := Suc (ref_count g)\<rparr>)\<rparr>))"

definition Release :: "thread \<Rightarrow> addr \<Rightarrow> refs \<Rightarrow> fault + refs" where
  "Release current x w =
     (case globals w x of
        None \<Rightarrow> Inl UseAfterFree
      | Some g \<Rightarrow>
          (let w' = w\<lparr>globals := (globals w)(x \<mapsto> g\<lparr>ref_count := ref_count g - 1\<rparr>)\<rparr>
           in if ref_count g - 1 = 0 then Destruct current x w' else Inr w'))"

text \<open>The two methods of \<^verbatim>\<open>RefCountedGlobal\<close>; a local reference is empty or a value.\<close>

definition RefCountedGlobal_IsAlive :: "RefCountedGlobal \<Rightarrow> bool" where
  "RefCountedGlobal_IsAlive g = (handle' g \<noteq> None)"

definition RefCountedGlobal_NewHandle :: "isolate \<Rightarrow> RefCountedGlobal \<Rightarrow> v8_value option" where
  "RefCountedGlobal_NewHandle isolate g = handle' g"

text \<open>
  \<^verbatim>\<open>class SafeV8Function { scoped_refptr<RefCountedGlobal<v8::Function>> v8_function_; }\<close>:
  the pointer is null or the address of a \<^verbatim>\<open>RefCountedGlobal\<close>.  The constructor from a
  value, the copy constructor, the destructor (run by the thread \<open>current\<close>) and the two
  methods follow.
\<close>

record SafeV8Function =
  v8_function' :: "addr option"

definition SafeV8Function_new :: "isolate \<Rightarrow> v8_value option \<Rightarrow> refs \<Rightarrow> SafeV8Function \<times> refs" where
  "SafeV8Function_new isolate local w =
     (let x = next_global w
      in (\<lparr>v8_function' = Some x\<rparr>,
          w\<lparr>globals := (globals w)(x \<mapsto> \<lparr>handle' = local, ref_count = 1\<rparr>),
            next_global := Suc x\<rparr>))"

definition SafeV8Function_copy :: "SafeV8Function \<Rightarrow> refs \<Rightarrow> fault + (SafeV8Function \<times> refs)" where
  "SafeV8Function_copy other w =
     (case v8_function' other of
        None \<Rightarrow> Inr (\<lparr>v8_function' = None\<rparr>, w)
      | Some x \<Rightarrow>
          (case AddRef x w of
             Inl e \<Rightarrow> Inl e
           | Inr w' \<Rightarrow> Inr (\<lparr>v8_function' = Some x\<rparr>, w')))"

definition SafeV8Function_destroy :: "thread \<Rightarrow> SafeV8Function \<Rightarrow> refs \<Rightarrow> fault + refs" where
  "SafeV8Function_destroy current f w =
     (case v8_function' f of
        None \<Rightarrow> Inr w
      | Some x \<Rightarrow> Release current x w)"

definition IsAlive :: "SafeV8Function \<Rightarrow> refs \<Rightarrow> fault + bool" where
  "IsAlive f w =
     (case v8_function' f of
        None \<Rightarrow> Inr False
      | Some x \<Rightarrow>
          (case globals w x of
             None \<Rightarrow> Inl UseAfterFree
           | Some g \<Rightarrow> Inr (RefCountedGlobal_IsAlive g)))"

definition NewHandle :: "isolate \<Rightarrow> SafeV8Function \<Rightarrow> refs \<Rightarrow> fault + v8_value option" where
  "NewHandle isolate f w =
     (case v8_function' f of
        None \<Rightarrow> Inl NullDeref
      | Some x \<Rightarrow>
          (case globals w x of
             None \<Rightarrow> Inl UseAfterFree
           | Some g \<Rightarrow> Inr (RefCountedGlobal_NewHandle isolate g)))"

text \<open>Making \<open>n\<close> copies of a wrapper, and destroying a list of wrappers on one thread.\<close>

fun copies :: "nat \<Rightarrow> SafeV8Function \<Rightarrow> refs \<Rightarrow> fault + (SafeV8Function list \<times> refs)" where
  "copies 0 f w = Inr ([], w)"
| "copies (Suc n) f w =
     (case SafeV8Function_copy f w of
        Inl e \<Rightarrow> Inl e
      | Inr (c, w') \<Rightarrow>
          (case copies n f w' of
             Inl e \<Rightarrow> Inl e
           | Inr (cs, w'') \<Rightarrow> Inr (c # cs, w'')))"

fun destroy_all :: "thread \<Rightarrow> SafeV8Function list \<Rightarrow> refs \<Rightarrow> fault + refs" where
  "destroy_all current [] w = Inr w"
| "destroy_all current (c # cs) w =
     (case SafeV8Function_destroy current c w of
        Inl e \<Rightarrow> Inl e
      | Inr w' \<Rightarrow> destroy_all current cs w')"

definition init_refs :: refs where
  "init_refs = \<lparr>globals = Map.empty, next_global = 0, IsBrowserProcess = True,
     ui_tasks = [], released = []\<rparr>"

text \<open>A concrete state: one wrapper of a host function has just been constructed.\<close>

definition one_wrapper :: refs where
  "one_wrapper = snd (SafeV8Function_new 0 (Some (V8Function (CallTranslaterTemplate 0))) init_refs)"

section \<open>Lemmas\<close>

lemma Create_eq:
  "CreateFunctionFromTranslater isolate t one_time w =
     Inr (created_function isolate w, created_process isolate t one_time w)"
  by (cases "g_call_translater w")
     (simp_all add: CreateFunctionFromTranslater_def new_TranslaterHolder_def Global_New_def SetWeak_def
      CreateEmpty_def Set_key_def Global_Get_def BindFunctionWith_def Let_def
      created_function_def created_process_def created_template_def)

lemma live_created:
  "live (next_addr w) (next_handle w) (next_object w) t one_time (created_process isolate t one_time w)"
  by (simp add: live_def created_process_def Has_def)

lemma Call_bound:
  "Call run (V8BoundFunction (V8Function T) th [V8External a, V8Object st]) args w =
     CallTranslater run a st args w"
  by (simp add: Call_def)

lemma CallTranslater_spent:
  "Has st ''oneTime'' w \<Longrightarrow> Has st ''called'' w \<Longrightarrow>
   CallTranslater run a st args w = Inr (ThrowError already_called w)"
  by (simp add: CallTranslater_def already_called_def)

lemma CallTranslater_repeat:
  "live a s st t False w \<Longrightarrow>
   CallTranslater run a st args w = run t args (w\<lparr>trace := trace w @ [Ran a args]\<rparr>)"
  by (auto simp add: CallTranslater_def live_def split: sum.splits)

lemma CallTranslater_first:
  "live a s st t True w \<Longrightarrow>
   CallTranslater run a st args w =
     (case run t args ((Set_key st ''called'' (V8Boolean True) w)\<lparr>trace := trace w @ [Ran a args]\<rparr>) of
        Inl f \<Rightarrow> Inl f
      | Inr w2 \<Rightarrow> delete_TranslaterHolder OneShotDelete a w2)"
  by (auto simp add: CallTranslater_def live_def Set_key_def split: sum.splits)


lemma delete_live:
  "holders w a = Some \<lparr>handle = Some s, translater = tr\<rparr> \<Longrightarrow>
   delete_TranslaterHolder via a w =
     Inr (w\<lparr>global_handles := (global_handles w)(s := None),
            holders := (holders w)(a := None),
            trace := trace w @ [Destroyed a via]\<rparr>)"
  by (cases "global_handles w s") (simp_all add: delete_TranslaterHolder_def Reset_def ClearWeak_def)

lemma invoke_repeat:
  assumes L: "live a s st t False w"
  shows "\<exists>out w'. invoke (native_run body) (V8BoundFunction (V8Function T) th [V8External a, V8Object st]) args w
        = Inr (out, w') \<and>
      live a s st t False w' \<and>
      trace w' = trace w @ [Ran a args] \<and>
      native w' = fst (body t args (native w)) \<and>
      pending_exception w' = None \<and>
      g_call_translater w' = g_call_translater w \<and>
      objects w' = objects w"
proof -
  have C: "CallTranslater (native_run body) a st args w =
      native_run body t args (w\<lparr>trace := trace w @ [Ran a args]\<rparr>)"
    by (rule CallTranslater_repeat [OF L])
  show ?thesis
    using L
    by (cases "body t args (native w)"; cases "snd (body t args (native w))"; cases "pending_exception w")
       (simp_all add: invoke_def Call_bound C native_run_def ThrowError_def live_def Has_def)
qed

lemma invoke_first:
  assumes L: "live a s st t True w"
  shows "\<exists>out w'. invoke (native_run body) (V8BoundFunction (V8Function T) th [V8External a, V8Object st]) args w
        = Inr (out, w') \<and>
      spent a s st w' \<and>
      trace w' = trace w @ [Ran a args, Destroyed a OneShotDelete] \<and>
      native w' = fst (body t args (native w)) \<and>
      pending_exception w' = None \<and>
      g_call_translater w' = g_call_translater w \<and>
      objects w' = (objects w)(st := (objects w st)(''called'' \<mapsto> V8Boolean True)) \<and>
      (\<forall>m. snd (body t args (native w)) = Some m \<longrightarrow> out = Threw m)"
proof -
  note C = CallTranslater_first [OF L, of "native_run body" args]
  have H: "holders w a = Some \<lparr>handle = Some s, translater = Some t\<rparr>"
    using L by (simp add: live_def)
  show ?thesis
    using L H
    by (cases "body t args (native w)"; cases "snd (body t args (native w))"; cases "pending_exception w")
       (simp_all add: invoke_def Call_bound C native_run_def ThrowError_def
         live_def spent_def Has_def Set_key_def delete_live)
qed

lemma invoke_spent:
  "spent a s st w \<Longrightarrow> pending_exception w = None \<Longrightarrow>
   invoke run (V8BoundFunction (V8Function T) th [V8External a, V8Object st]) args w
        = Inr (Threw already_called, w)"
  by (simp add: invoke_def Call_bound CallTranslater_spent spent_def ThrowError_def)

lemma invokes_spent:
  "spent a s st w \<Longrightarrow> pending_exception w = None \<Longrightarrow>
   invokes run (V8BoundFunction (V8Function T) th [V8External a, V8Object st]) rest w
        = Inr (replicate (length rest) (Threw already_called), w)"
  by (induction rest) (simp_all add: invoke_spent)


lemma FireWeakCallback_live:
  "live a s st t one_time w \<Longrightarrow>
   FireWeakCallback s w =
     Inr (w\<lparr>global_handles := (global_handles w)(s := None),
            holders := (holders w)(a := None),
            trace := trace w @ [Destroyed a Finalizer]\<rparr>)"
  by (simp add: FireWeakCallback_def GC_def live_def delete_live)

lemma FireWeakCallback_gone:
  "global_handles w s = None \<Longrightarrow> FireWeakCallback s w = Inr w"
  by (simp add: FireWeakCallback_def)

lemma invokes_repeat:
  "live a s st t False w \<Longrightarrow>
   \<exists>outs w'. invokes (native_run body) (V8BoundFunction (V8Function T) th [V8External a, V8Object st]) argss w
        = Inr (outs, w') \<and>
      length outs = length argss \<and>
      live a s st t False w' \<and>
      trace w' = trace w @ map (Ran a) argss \<and>
      native w' = foldl (\<lambda>n args. fst (body t args n)) (native w) argss \<and>
      g_call_translater w' = g_call_translater w \<and>
      objects w' = objects w"
proof (induction argss arbitrary: w)
  case Nil
  then show ?case by simp
next
  case (Cons args argss)
  from invoke_repeat [OF Cons.prems, of body T th args]
  obtain out w1 where
    1: "invoke (native_run body) (V8BoundFunction (V8Function T) th [V8External a, V8Object st]) args w
          = Inr (out, w1)"
    and 2: "live a s st t False w1"
    and 3: "trace w1 = trace w @ [Ran a args]" "native w1 = fst (body t args (native w))"
       "g_call_translater w1 = g_call_translater w" "objects w1 = objects w"
    by blast
  from Cons.IH [OF 2]
  obtain outs w' where
    4: "invokes (native_run body) (V8BoundFunction (V8Function T) th [V8External a, V8Object st]) argss w1
          = Inr (outs, w')"
    and 5: "length outs = length argss" "live a s st t False w'"
      "trace w' = trace w1 @ map (Ran a) argss"
      "native w' = foldl (\<lambda>n args. fst (body t args n)) (native w1) argss"
      "g_call_translater w' = g_call_translater w1" "objects w' = objects w1"
    by blast
  show ?case
    using 1 3 4 5 by simp
qed

lemma lifecycle_collected:
  "global_handles w s = None \<Longrightarrow> set es \<subseteq> {Unreachable} \<Longrightarrow> lifecycle run fn s es w = Inr w"
  by (induction es) (auto simp add: FireWeakCallback_gone)

lemma lifecycle_spent:
  "spent a s st w \<Longrightarrow> pending_exception w = None \<Longrightarrow>
   lifecycle run (V8BoundFunction (V8Function T) th [V8External a, V8Object st]) s es w = Inr w"
proof (induction es)
  case Nil
  then show ?case by simp
next
  case (Cons e es)
  then have "global_handles w s = None" by (simp add: spent_def)
  with Cons show ?case
    by (cases e) (simp_all add: invoke_spent FireWeakCallback_gone)
qed

lemma destructions_append:
  "destructions a (xs @ ys) = destructions a xs @ destructions a ys"
  by (induction a xs rule: destructions.induct) simp_all

lemma lifecycle_live:
  "live a s st t one_time w \<Longrightarrow> reachable_while_invoked es \<Longrightarrow>
   \<exists>w2 evs. lifecycle (native_run body) (V8BoundFunction (V8Function T) th [V8External a, V8Object st]) s es w
        = Inr w2 \<and>
      trace w2 = trace w @ evs \<and>
      destructions a evs = ending one_time es \<and>
      holders w2 a = (if ending one_time es = [] then Some \<lparr>handle = Some s, translater = Some t\<rparr> else None) \<and>
      global_handles w2 s =
        (if ending one_time es = [] then Some \<lparr>referent = V8External a, weak_parameter = Some a\<rparr> else None)"
proof (induction es arbitrary: w)
  case Nil
  then show ?case by (simp add: live_def)
next
  case (Cons e es)
  let ?fn = "V8BoundFunction (V8Function T) th [V8External a, V8Object st]"
  show ?case
  proof (cases e)
    case Unreachable
    let ?w1 = "w\<lparr>global_handles := (global_handles w)(s := None),
            holders := (holders w)(a := None),
            trace := trace w @ [Destroyed a Finalizer]\<rparr>"
    have F: "FireWeakCallback s w = Inr ?w1"
      by (rule FireWeakCallback_live [OF Cons.prems(1)])
    have R: "set es \<subseteq> {Unreachable}"
      using Cons.prems(2) Unreachable by simp
    have "lifecycle (native_run body) ?fn s es ?w1 = Inr ?w1"
      by (rule lifecycle_collected [OF _ R]) simp
    with F Unreachable show ?thesis
      by simp
  next
    case (Invoked args)
    have R: "reachable_while_invoked es"
      using Cons.prems(2) Invoked by simp
    show ?thesis
    proof (cases one_time)
      case True
      have L: "live a s st t True w"
        using Cons.prems(1) True by simp
      from invoke_first [OF L, of body T th args]
      obtain out w1 where
        1: "invoke (native_run body) ?fn args w = Inr (out, w1)"
        and 2: "spent a s st w1"
        and 3: "trace w1 = trace w @ [Ran a args, Destroyed a OneShotDelete]"
        and 4: "pending_exception w1 = None"
        by blast
      have "lifecycle (native_run body) ?fn s es w1 = Inr w1"
        by (rule lifecycle_spent [OF 2 4])
      with 1 2 3 Invoked True show ?thesis
        by (simp add: spent_def)
    next
      case False
      have L: "live a s st t False w"
        using Cons.prems(1) False by simp
      from invoke_repeat [OF L, of body T th args]
      obtain out w1 where
        1: "invoke (native_run body) ?fn args w = Inr (out, w1)"
        and 2: "live a s st t False w1"
        and 3: "trace w1 = trace w @ [Ran a args]"
        by blast
      have L1: "live a s st t one_time w1"
        using 2 False by simp
      from Cons.IH [OF L1 R]
      obtain w2 evs where
        5: "lifecycle (native_run body) ?fn s es w1 = Inr w2"
        and 6: "trace w2 = trace w1 @ evs" "destructions a evs = ending one_time es"
          "holders w2 a = (if ending one_time es = [] then Some \<lparr>handle = Some s, translater = Some t\<rparr> else None)"
          "global_handles w2 s =
            (if ending one_time es = [] then Some \<lparr>referent = V8External a, weak_parameter = Some a\<rparr> else None)"
        by blast
      have "trace w2 = trace w @ (Ran a args # evs)"
        using 3 6(1) by simp
      moreover have "destructions a (Ran a args # evs) = ending one_time (e # es)"
        using 6(2) Invoked False by simp
      ultimately show ?thesis
        using 1 5 6 Invoked False by (intro exI [of _ w2] exI [of _ "Ran a args # evs"]) simp
    qed
  qed
qed

lemma ending_length: "length (ending one_time es) \<le> 1"
  by (induction one_time es rule: ending.induct) simp_all

lemma ending_unreachable: "Unreachable \<in> set es \<Longrightarrow> length (ending one_time es) = 1"
  by (induction one_time es rule: ending.induct) auto

lemma invokes_one_shot:
  assumes L: "live a s st t True w"
  shows "\<exists>outs w'. invokes (native_run body) (V8BoundFunction (V8Function T) th [V8External a, V8Object st])
          (args # rest) w = Inr (outs, w') \<and>
      length outs = Suc (length rest) \<and>
      tl outs = replicate (length rest) (Threw already_called) \<and>
      spent a s st w' \<and>
      trace w' = trace w @ [Ran a args, Destroyed a OneShotDelete] \<and>
      native w' = fst (body t args (native w)) \<and>
      objects w' = (objects w)(st := (objects w st)(''called'' \<mapsto> V8Boolean True))"
proof -
  let ?fn = "V8BoundFunction (V8Function T) th [V8External a, V8Object st]"
  from invoke_first [OF L, of body T th args]
  obtain out w1 where
    1: "invoke (native_run body) ?fn args w = Inr (out, w1)"
    and 2: "spent a s st w1"
    and 3: "trace w1 = trace w @ [Ran a args, Destroyed a OneShotDelete]"
      "native w1 = fst (body t args (native w))"
      "objects w1 = (objects w)(st := (objects w st)(''called'' \<mapsto> V8Boolean True))"
    and 4: "pending_exception w1 = None"
    by blast
  have "invokes (native_run body) ?fn rest w1 = Inr (replicate (length rest) (Threw already_called), w1)"
    by (rule invokes_spent [OF 2 4])
  with 1 2 3 show ?thesis
    by simp
qed

lemma Call_keeps_template:
  "Call (native_run body) fn args w = Inr w' \<Longrightarrow> g_call_translater w' = g_call_translater w"
  by (auto simp add: Call_def CallTranslater_def native_run_def ThrowError_def Set_key_def
      delete_TranslaterHolder_def Reset_def ClearWeak_def Let_def
      split: v8_value.splits list.splits if_splits option.splits sum.splits prod.splits)

lemma invoke_keeps_template:
  "invoke (native_run body) fn args w = Inr (out, w') \<Longrightarrow> g_call_translater w' = g_call_translater w"
  by (auto simp add: invoke_def split: sum.splits option.splits dest: Call_keeps_template)

lemma FireWeakCallback_keeps_template:
  "FireWeakCallback s w = Inr w' \<Longrightarrow> g_call_translater w' = g_call_translater w"
  by (auto simp add: FireWeakCallback_def GC_def delete_TranslaterHolder_def Reset_def ClearWeak_def
      Let_def split: option.splits)

lemma perform_keeps_template:
  "g_call_translater w = Some T \<Longrightarrow> perform body op w = Inr (fns, w') \<Longrightarrow>
   g_call_translater w' = Some T \<and> map instance_of fns = replicate (length fns) (Some T)"
proof (cases op)
  case (OpCreate isolate t one_time)
  assume "g_call_translater w = Some T" "perform body op w = Inr (fns, w')"
  with OpCreate show ?thesis
    by (auto simp add: Create_eq created_function_def created_process_def created_template_def)
next
  case (OpInvoke fn args)
  assume "g_call_translater w = Some T" "perform body op w = Inr (fns, w')"
  with OpInvoke show ?thesis
    by (auto split: sum.splits dest: invoke_keeps_template)
next
  case (OpCollect s)
  assume "g_call_translater w = Some T" "perform body op w = Inr (fns, w')"
  with OpCollect show ?thesis
    by (auto split: sum.splits dest: FireWeakCallback_keeps_template)
qed

lemma performs_keeps_template:
  "g_call_translater w = Some T \<Longrightarrow> performs body ops w = Inr (fns, w') \<Longrightarrow>
   g_call_translater w' = Some T \<and> map instance_of fns = replicate (length fns) (Some T)"
proof (induction ops arbitrary: w fns)
  case Nil
  then show ?case by simp
next
  case (Cons op ops)
  from Cons.prems(2) obtain fns1 w1 fns2 where
    1: "perform body op w = Inr (fns1, w1)"
    and 2: "performs body ops w1 = Inr (fns2, w')"
    and 3: "fns = fns1 @ fns2"
    by (auto split: sum.splits)
  from perform_keeps_template [OF Cons.prems(1) 1]
  have 4: "g_call_translater w1 = Some T" "map instance_of fns1 = replicate (length fns1) (Some T)"
    by simp_all
  from Cons.IH [OF 4(1) 2] 4(2) 3 show ?case
    by (simp add: replicate_add)
qed

lemma copies_count:
  "globals w x = Some \<lparr>handle' = l, ref_count = k\<rparr> \<Longrightarrow>
   \<exists>w'. copies n \<lparr>v8_function' = Some x\<rparr> w = Inr (replicate n \<lparr>v8_function' = Some x\<rparr>, w') \<and>
     globals w' x = Some \<lparr>handle' = l, ref_count = k + n\<rparr> \<and>
     ui_tasks w' = ui_tasks w \<and> released w' = released w \<and> IsBrowserProcess w' = IsBrowserProcess w"
proof (induction n arbitrary: w k)
  case 0
  then show ?case by simp
next
  case (Suc n)
  let ?w1 = "w\<lparr>globals := (globals w)(x \<mapsto> \<lparr>handle' = l, ref_count = Suc k\<rparr>)\<rparr>"
  have 1: "SafeV8Function_copy \<lparr>v8_function' = Some x\<rparr> w = Inr (\<lparr>v8_function' = Some x\<rparr>, ?w1)"
    using Suc.prems by (simp add: SafeV8Function_copy_def AddRef_def)
  have 2: "globals ?w1 x = Some \<lparr>handle' = l, ref_count = Suc k\<rparr>"
    by simp
  from Suc.IH [OF 2] 1 show ?case
    by auto
qed

lemma destroy_copies:
  "globals w x = Some \<lparr>handle' = l, ref_count = k\<rparr> \<Longrightarrow> n < k \<Longrightarrow>
   \<exists>w'. destroy_all current (replicate n \<lparr>v8_function' = Some x\<rparr>) w = Inr w' \<and>
     globals w' x = Some \<lparr>handle' = l, ref_count = k - n\<rparr> \<and>
     ui_tasks w' = ui_tasks w \<and> released w' = released w \<and> IsBrowserProcess w' = IsBrowserProcess w"
proof (induction n arbitrary: w k)
  case 0
  then show ?case by simp
next
  case (Suc n)
  let ?w1 = "w\<lparr>globals := (globals w)(x \<mapsto> \<lparr>handle' = l, ref_count = k - 1\<rparr>)\<rparr>"
  have 1: "SafeV8Function_destroy current \<lparr>v8_function' = Some x\<rparr> w = Inr ?w1"
    using Suc.prems by (simp add: SafeV8Function_destroy_def Release_def)
  have 2: "globals ?w1 x = Some \<lparr>handle' = l, ref_count = k - 1\<rparr>"
    by simp
  have 3: "n < k - 1"
    using Suc.prems by simp
  from Suc.IH [OF 2 3] 1 show ?case
    by auto
qed

section \<open>The claims\<close>

text \<open>
  C1 (as stated).  A one-shot function that has been invoked once fails every later
  invocation with a "callback can only be called once" error.  The code throws a
  different message: on a fresh process, a one-shot function invoked twice returns
  normally the first time and the second call throws
  "callback can only be called for once".
\<close>

theorem already_called_message_counterexample:
  "map_sum id fst (scenario True [\<lparr>args_isolate = 0, argv = [V8Number 1]\<rparr>,
                                   \<lparr>args_isolate = 0, argv = [V8Number 2]\<rparr>])
     = Inr [Returned, Threw ''callback can only be called for once'']
   \<and> map_sum id fst (scenario True [\<lparr>args_isolate = 0, argv = [V8Number 1]\<rparr>,
                                   \<lparr>args_isolate = 0, argv = [V8Number 2]\<rparr>])
     \<noteq> Inr [Returned, Threw ''callback can only be called once'']"
  by (simp add: scenario_def init_def Create_eq created_function_def created_process_def
      created_template_def CreateFunctionTemplate_def invoke_def Call_def CallTranslater_def
      Has_def Set_key_def native_run_def record_call_def delete_TranslaterHolder_def
      Reset_def ClearWeak_def ThrowError_def already_called_def)

text \<open>
  C1 (amended).  For every function made with \<open>one_time = true\<close> and invoked once (with a
  native callback \<open>body\<close>), every later invocation, whatever callback \<open>run\<close> would do if
  it were run, is surfaced to the caller as the catchable error
  "callback can only be called for once" and returns the process exactly as it was before
  the call: the native callback is not run, nothing else is done, native state is
  untouched.
\<close>

theorem already_called_fails:
  "\<exists>fn w1 out w2.
     CreateFunctionFromTranslater isolate t True w0 = Inr (fn, w1) \<and>
     invoke (native_run body) fn args w1 = Inr (out, w2) \<and>
     invokes run fn rest w2 =
       Inr (replicate (length rest) (Threw ''callback can only be called for once''), w2)"
proof -
  let ?w1 = "created_process isolate t True w0"
  have L: "live (next_addr w0) (next_handle w0) (next_object w0) t True ?w1"
    by (rule live_created)
  from invoke_first [OF L, of body "created_template isolate w0" "V8Function (created_template isolate w0)" args]
  obtain out w2 where
    1: "invoke (native_run body) (created_function isolate w0) args ?w1 = Inr (out, w2)"
    and 2: "spent (next_addr w0) (next_handle w0) (next_object w0) w2"
    and 3: "pending_exception w2 = None"
    unfolding created_function_def by blast
  have "invokes run (created_function isolate w0) rest w2 =
      Inr (replicate (length rest) (Threw already_called), w2)"
    unfolding created_function_def by (rule invokes_spent [OF 2 3])
  with 1 show ?thesis
    by (simp add: Create_eq already_called_def)
qed

text \<open>
  C2.  For every function made with \<open>one_time = true\<close>, the first invocation is, whatever
  the native callback, one run of it followed at once by the delete of the holder, inside
  the call.  For a callback \<open>body\<close> working on native state: it is run exactly once (one
  \<open>Ran\<close> event, the native state is that of one run of \<open>body\<close>), the holder is destroyed
  right after, by the one-shot delete and not by the collector, and when \<open>invoke\<close> returns
  to the caller the holder is gone from the heap and its weak registration from the handle
  table.
\<close>

theorem one_shot_first_invocation:
  "\<exists>fn w1 out w2.
     CreateFunctionFromTranslater isolate t True w0 = Inr (fn, w1) \<and>
     holders w1 (next_addr w0) = Some \<lparr>handle = Some (next_handle w0), translater = Some t\<rparr> \<and>
     global_handles w1 (next_handle w0) =
       Some \<lparr>referent = V8External (next_addr w0), weak_parameter = Some (next_addr w0)\<rparr> \<and>
     (\<forall>run. Call run fn args w1 =
        (case run t args ((Set_key (next_object w0) ''called'' (V8Boolean True) w1)
                            \<lparr>trace := trace w1 @ [Ran (next_addr w0) args]\<rparr>) of
           Inl f \<Rightarrow> Inl f
         | Inr w2 \<Rightarrow> delete_TranslaterHolder OneShotDelete (next_addr w0) w2)) \<and>
     invoke (native_run body) fn args w1 = Inr (out, w2) \<and>
     trace w2 = trace w1 @ [Ran (next_addr w0) args, Destroyed (next_addr w0) OneShotDelete] \<and>
     native w2 = fst (body t args (native w1)) \<and>
     holders w2 (next_addr w0) = None \<and>
     global_handles w2 (next_handle w0) = None"
proof -
  let ?w1 = "created_process isolate t True w0"
  let ?fn = "created_function isolate w0"
  have L: "live (next_addr w0) (next_handle w0) (next_object w0) t True ?w1"
    by (rule live_created)
  have C: "\<And>run. Call run ?fn args ?w1 =
        (case run t args ((Set_key (next_object w0) ''called'' (V8Boolean True) ?w1)
                            \<lparr>trace := trace ?w1 @ [Ran (next_addr w0) args]\<rparr>) of
           Inl f \<Rightarrow> Inl f
         | Inr w2 \<Rightarrow> delete_TranslaterHolder OneShotDelete (next_addr w0) w2)"
    unfolding created_function_def Call_bound by (rule CallTranslater_first [OF L])
  from invoke_first [OF L, of body "created_template isolate w0" "V8Function (created_template isolate w0)" args]
  obtain out w2 where I:
    "invoke (native_run body) ?fn args ?w1 = Inr (out, w2)"
    "spent (next_addr w0) (next_handle w0) (next_object w0) w2"
    "trace w2 = trace ?w1 @ [Ran (next_addr w0) args, Destroyed (next_addr w0) OneShotDelete]"
    "native w2 = fst (body t args (native ?w1))"
    unfolding created_function_def by blast
  show ?thesis
    apply (rule exI [of _ ?fn])
    apply (rule exI [of _ ?w1])
    apply (rule exI [of _ out])
    apply (rule exI [of _ w2])
    using L I C
    apply (simp add: Create_eq live_def spent_def)
    done
qed

text \<open>
  C3.  Take any function made by \<open>CreateFunctionFromTranslater\<close> and any life of it
  (invocations, then the collector's notifications once it is unreachable).  No step
  faults (a second delete of the holder would be a fault), the holder is destroyed at most
  once, and it is destroyed exactly once as soon as the collector has notified or a
  one-shot function has been invoked: by the finalizer or by the one-shot delete, whichever
  comes first, never both.  Once destroyed, the holder's slot is gone from the handle
  table, so no weak callback is left that could be given the freed holder.
\<close>

theorem holder_destroyed_once:
  assumes "reachable_while_invoked es"
  shows "\<exists>fn w1 w2 evs.
     CreateFunctionFromTranslater isolate t one_time w0 = Inr (fn, w1) \<and>
     lifecycle (native_run body) fn (next_handle w0) es w1 = Inr w2 \<and>
     trace w2 = trace w1 @ evs \<and>
     destructions (next_addr w0) evs = ending one_time es \<and>
     length (destructions (next_addr w0) evs) \<le> 1 \<and>
     (if Unreachable \<in> set es \<or> one_time \<and> es \<noteq> []
      then length (destructions (next_addr w0) evs) = 1 \<and>
           holders w2 (next_addr w0) = None \<and> global_handles w2 (next_handle w0) = None
      else destructions (next_addr w0) evs = [] \<and>
           holders w2 (next_addr w0) = Some \<lparr>handle = Some (next_handle w0), translater = Some t\<rparr> \<and>
           global_handles w2 (next_handle w0) =
             Some \<lparr>referent = V8External (next_addr w0), weak_parameter = Some (next_addr w0)\<rparr>)"
proof -
  let ?w1 = "created_process isolate t one_time w0"
  let ?a = "next_addr w0"
  let ?s = "next_handle w0"
  have L: "live ?a ?s (next_object w0) t one_time ?w1"
    by (rule live_created)
  from lifecycle_live [OF L assms, of body "created_template isolate w0" "V8Function (created_template isolate w0)"]
  obtain w2 evs where
    1: "lifecycle (native_run body) (created_function isolate w0) ?s es ?w1 = Inr w2"
    and 2: "trace w2 = trace ?w1 @ evs"
    and 3: "destructions ?a evs = ending one_time es"
    and 4: "holders w2 ?a = (if ending one_time es = [] then Some \<lparr>handle = Some ?s, translater = Some t\<rparr> else None)"
    and 5: "global_handles w2 ?s =
        (if ending one_time es = [] then Some \<lparr>referent = V8External ?a, weak_parameter = Some ?a\<rparr> else None)"
    unfolding created_function_def by blast
  have E: "(ending one_time es = []) = (\<not> (Unreachable \<in> set es \<or> one_time \<and> es \<noteq> []))"
    by (induction one_time es rule: ending.induct) auto
  have N: "length (ending one_time es) \<le> 1"
    by (rule ending_length)
  have O: "ending one_time es \<noteq> [] \<Longrightarrow> length (ending one_time es) = 1"
    using N by (cases "ending one_time es") simp_all
  show ?thesis
    apply (rule exI [of _ "created_function isolate w0"])
    apply (rule exI [of _ ?w1])
    apply (rule exI [of _ w2])
    apply (rule exI [of _ evs])
    using 1 2 3 4 5 E N O
    apply (simp add: Create_eq)
    done
qed

theorem holder_destroyed_once_witness:
  "reachable_while_invoked
     [Invoked \<lparr>args_isolate = 0, argv = [V8Number 1]\<rparr>,
      Invoked \<lparr>args_isolate = 0, argv = [V8Number 2]\<rparr>, Unreachable] \<and>
   (\<exists>fn w1 w2 evs.
     CreateFunctionFromTranslater 0 0 True init = Inr (fn, w1) \<and>
     lifecycle (native_run record_call) fn 0
       [Invoked \<lparr>args_isolate = 0, argv = [V8Number 1]\<rparr>,
        Invoked \<lparr>args_isolate = 0, argv = [V8Number 2]\<rparr>, Unreachable] w1 = Inr w2 \<and>
     trace w2 = trace w1 @ evs \<and>
     destructions 0 evs = [OneShotDelete] \<and>
     holders w2 0 = None \<and> global_handles w2 0 = None)"
  using holder_destroyed_once [of "[Invoked \<lparr>args_isolate = 0, argv = [V8Number 1]\<rparr>,
      Invoked \<lparr>args_isolate = 0, argv = [V8Number 2]\<rparr>, Unreachable]" 0 "0::nat" True init record_call]
  by (auto simp add: init_def)

text \<open>
  C4.  On the first invocation of a one-shot function the \<open>called\<close> marker is written
  before \<open>Run\<close>: whatever the native callback is, the process it is run on already holds
  the marker in the metadata record.  Hence a callback that calls the same function again
  from inside \<open>Run\<close> gets the already-called error from the nested call, and no callback
  is run by it (a single \<open>Ran\<close> event, native state unchanged, whatever \<open>inner\<close> the
  nested call would have run).
\<close>

theorem marker_written_before_run:
  "\<exists>fn w1 marked w3.
     CreateFunctionFromTranslater isolate t True w0 = Inr (fn, w1) \<and>
     \<not> Has (next_object w0) ''called'' w1 \<and>
     marked = (Set_key (next_object w0) ''called'' (V8Boolean True) w1)
                \<lparr>trace := trace w1 @ [Ran (next_addr w0) args]\<rparr> \<and>
     Has (next_object w0) ''called'' marked \<and>
     (\<forall>run. Call run fn args w1 =
        (case run t args marked of
           Inl f \<Rightarrow> Inl f
         | Inr w2 \<Rightarrow> delete_TranslaterHolder OneShotDelete (next_addr w0) w2)) \<and>
     invoke (reentrant inner fn args') fn args w1 =
       Inr (Threw ''callback can only be called for once'', w3) \<and>
     trace w3 = trace w1 @ [Ran (next_addr w0) args, Destroyed (next_addr w0) OneShotDelete] \<and>
     native w3 = native w1 \<and>
     holders w3 (next_addr w0) = None"
proof -
  let ?w1 = "created_process isolate t True w0"
  let ?a = "next_addr w0"
  let ?st = "next_object w0"
  let ?fn = "created_function isolate w0"
  let ?marked = "(Set_key ?st ''called'' (V8Boolean True) ?w1)\<lparr>trace := trace ?w1 @ [Ran ?a args]\<rparr>"
  have L: "live ?a (next_handle w0) ?st t True ?w1"
    by (rule live_created)
  have C: "\<And>run. Call run ?fn args ?w1 =
        (case run t args ?marked of
           Inl f \<Rightarrow> Inl f
         | Inr w2 \<Rightarrow> delete_TranslaterHolder OneShotDelete ?a w2)"
    unfolding created_function_def Call_bound by (rule CallTranslater_first [OF L])
  have M: "Has ?st ''oneTime'' ?marked" "Has ?st ''called'' ?marked"
    using L by (simp_all add: live_def Has_def Set_key_def)
  have N: "reentrant inner ?fn args' t args ?marked = Inr (ThrowError already_called ?marked)"
    unfolding reentrant_def created_function_def Call_bound
    by (rule CallTranslater_spent [OF M])
  have H: "holders (ThrowError already_called ?marked) ?a =
      Some \<lparr>handle = Some (next_handle w0), translater = Some t\<rparr>"
    using L by (simp add: live_def ThrowError_def Set_key_def)
  have I: "invoke (reentrant inner ?fn args') ?fn args ?w1 =
      Inr (Threw already_called,
        (ThrowError already_called ?marked)
          \<lparr>global_handles := (global_handles (ThrowError already_called ?marked))(next_handle w0 := None),
           holders := (holders (ThrowError already_called ?marked))(?a := None),
           trace := trace (ThrowError already_called ?marked) @ [Destroyed ?a OneShotDelete],
           pending_exception := None\<rparr>)"
    by (simp add: invoke_def C N delete_live [OF H]) (simp add: ThrowError_def)
  show ?thesis
    apply (rule exI [of _ ?fn])
    apply (rule exI [of _ ?w1])
    apply (rule exI [of _ ?marked])
    using L M C
    apply (simp add: Create_eq I live_def)
    apply (simp add: ThrowError_def Set_key_def already_called_def)
    done
qed

text \<open>
  C5.  For every function made with \<open>one_time = false\<close> and every list of invocations
  (of any length \<open>N\<close>), the native callback is run once per invocation, in order, on
  exactly the arguments supplied (\<open>N\<close> events \<open>Ran\<close>, and the native state is \<open>body\<close>
  folded over the argument lists).  The invocations never delete the holder: after them it
  is still on the heap, weakly registered; it is reclaimed when the collector notifies
  its slot, through the finalizer.
\<close>

theorem repeatable_runs_every_time:
  "\<exists>fn w1 outs w2 w3.
     CreateFunctionFromTranslater isolate t False w0 = Inr (fn, w1) \<and>
     invokes (native_run body) fn argss w1 = Inr (outs, w2) \<and>
     length outs = length argss \<and>
     trace w2 = trace w1 @ map (Ran (next_addr w0)) argss \<and>
     native w2 = foldl (\<lambda>n args. fst (body t args n)) (native w1) argss \<and>
     holders w2 (next_addr w0) = Some \<lparr>handle = Some (next_handle w0), translater = Some t\<rparr> \<and>
     global_handles w2 (next_handle w0) =
       Some \<lparr>referent = V8External (next_addr w0), weak_parameter = Some (next_addr w0)\<rparr> \<and>
     FireWeakCallback (next_handle w0) w2 = Inr w3 \<and>
     trace w3 = trace w2 @ [Destroyed (next_addr w0) Finalizer] \<and>
     holders w3 (next_addr w0) = None"
proof -
  let ?w1 = "created_process isolate t False w0"
  let ?a = "next_addr w0"
  let ?s = "next_handle w0"
  have L: "live ?a ?s (next_object w0) t False ?w1"
    by (rule live_created)
  from invokes_repeat [OF L, of body "created_template isolate w0" "V8Function (created_template isolate w0)" argss]
  obtain outs w2 where
    1: "invokes (native_run body) (created_function isolate w0) argss ?w1 = Inr (outs, w2)"
    and 2: "length outs = length argss"
    and 3: "live ?a ?s (next_object w0) t False w2"
    and 4: "trace w2 = trace ?w1 @ map (Ran ?a) argss"
    and 5: "native w2 = foldl (\<lambda>n args. fst (body t args n)) (native ?w1) argss"
    unfolding created_function_def by blast
  note F = FireWeakCallback_live [OF 3]
  show ?thesis
    apply (rule exI [of _ "created_function isolate w0"])
    apply (rule exI [of _ ?w1])
    apply (rule exI [of _ outs])
    apply (rule exI [of _ w2])
    using 1 2 3 4 5 F
    apply (simp add: Create_eq live_def)
    done
qed

text \<open>
  C6.  \<open>CreateFunctionFromTranslater\<close> builds a metadata record that holds the key
  \<open>oneTime\<close> (with value true) exactly when its \<open>one_time\<close> argument is true and nothing
  else; whatever is invoked afterwards, the record never holds a key other than
  \<open>oneTime\<close> and \<open>called\<close>.  The gate of \<open>CallTranslater\<close> applies exactly when
  \<open>one_time\<close> was true at creation: then only the first invocation runs the callback (and
  deletes the holder) and every later one throws; otherwise every invocation runs it and the
  holder stays.
\<close>

theorem metadata_record_and_gating:
  "\<exists>fn w1 outs w2.
     CreateFunctionFromTranslater isolate t one_time w0 = Inr (fn, w1) \<and>
     objects w1 (next_object w0) =
       (if one_time then [''oneTime'' \<mapsto> V8Boolean True] else Map.empty) \<and>
     Has (next_object w0) ''oneTime'' w1 = one_time \<and>
     invokes (native_run body) fn argss w1 = Inr (outs, w2) \<and>
     length outs = length argss \<and>
     objects w2 (next_object w0) =
       (if one_time
        then (if argss = [] then [''oneTime'' \<mapsto> V8Boolean True]
              else [''oneTime'' \<mapsto> V8Boolean True, ''called'' \<mapsto> V8Boolean True])
        else Map.empty) \<and>
     dom (objects w2 (next_object w0)) \<subseteq> {''oneTime'', ''called''} \<and>
     trace w2 = trace w1 @
       (if one_time
        then (case argss of [] \<Rightarrow> []
              | args # rest \<Rightarrow> [Ran (next_addr w0) args, Destroyed (next_addr w0) OneShotDelete])
        else map (Ran (next_addr w0)) argss) \<and>
     (if one_time
      then tl outs = replicate (length argss - 1) (Threw ''callback can only be called for once'')
      else holders w2 (next_addr w0) = holders w1 (next_addr w0))"
proof (cases one_time)
  case False
  let ?w1 = "created_process isolate t False w0"
  have L: "live (next_addr w0) (next_handle w0) (next_object w0) t False ?w1"
    by (rule live_created)
  from invokes_repeat [OF L, of body "created_template isolate w0" "V8Function (created_template isolate w0)" argss]
  obtain outs w2 where
    "invokes (native_run body) (created_function isolate w0) argss ?w1 = Inr (outs, w2)"
    "length outs = length argss"
    "live (next_addr w0) (next_handle w0) (next_object w0) t False w2"
    "trace w2 = trace ?w1 @ map (Ran (next_addr w0)) argss"
    "objects w2 = objects ?w1"
    unfolding created_function_def by blast
  with False L show ?thesis
    by (auto simp add: Create_eq live_def created_process_def Has_def)
next
  case True
  let ?w1 = "created_process isolate t True w0"
  have L: "live (next_addr w0) (next_handle w0) (next_object w0) t True ?w1"
    by (rule live_created)
  show ?thesis
  proof (cases argss)
    case Nil
    with True show ?thesis
      by (simp add: Create_eq created_process_def Has_def)
  next
    case (Cons args rest)
    from invokes_one_shot [OF L, of body "created_template isolate w0" "V8Function (created_template isolate w0)" args rest]
    obtain outs w2 where
      "invokes (native_run body) (created_function isolate w0) (args # rest) ?w1 = Inr (outs, w2)"
      "length outs = Suc (length rest)"
      "tl outs = replicate (length rest) (Threw already_called)"
      "trace w2 = trace ?w1 @ [Ran (next_addr w0) args, Destroyed (next_addr w0) OneShotDelete]"
      "objects w2 = (objects ?w1)(next_object w0 := (objects ?w1 (next_object w0))(''called'' \<mapsto> V8Boolean True))"
      unfolding created_function_def by blast
    with True Cons show ?thesis
      by (auto simp add: Create_eq created_process_def Has_def already_called_def)
  qed
qed

text \<open>
  C7.  Take a wrapper constructed from a local reference \<open>local\<close> (a value, or empty),
  any number of copies of it, and any of these copies destroyed again, on any thread.
  \<open>IsAlive\<close> says whether \<open>local\<close> was a value: true right after construction from a
  live function value, and false, for good, when the handle is empty (no operation of the
  class sets the handle again).  \<open>NewHandle\<close> returns \<open>local\<close>: the value that was wrapped
  when \<open>IsAlive\<close> is true, the empty reference when it is false.  The same holds of every
  copy.
\<close>

theorem alive_until_cleared:
  "\<exists>f w1 cs w2 w3.
     SafeV8Function_new isolate local w0 = (f, w1) \<and>
     IsAlive f w1 = Inr (local \<noteq> None) \<and>
     NewHandle isolate' f w1 = Inr local \<and>
     copies n f w1 = Inr (cs, w2) \<and>
     length cs = n \<and>
     map (\<lambda>c. IsAlive c w2) (f # cs) = replicate (Suc n) (Inr (local \<noteq> None)) \<and>
     map (\<lambda>c. NewHandle isolate' c w2) (f # cs) = replicate (Suc n) (Inr local) \<and>
     destroy_all current (take m cs) w2 = Inr w3 \<and>
     IsAlive f w3 = Inr (local \<noteq> None) \<and>
     NewHandle isolate' f w3 = Inr local"
proof -
  let ?x = "next_global w0"
  let ?f = "\<lparr>v8_function' = Some ?x\<rparr>"
  let ?w1 = "w0\<lparr>globals := (globals w0)(?x \<mapsto> \<lparr>handle' = local, ref_count = 1\<rparr>),
            next_global := Suc ?x\<rparr>"
  have N: "SafeV8Function_new isolate local w0 = (?f, ?w1)"
    by (simp add: SafeV8Function_new_def Let_def)
  have G1: "globals ?w1 ?x = Some \<lparr>handle' = local, ref_count = 1\<rparr>"
    by simp
  from copies_count [OF G1, of n]
  obtain w2 where
    C: "copies n ?f ?w1 = Inr (replicate n ?f, w2)"
    and G2: "globals w2 ?x = Some \<lparr>handle' = local, ref_count = 1 + n\<rparr>"
    by blast
  have M: "min m n < 1 + n"
    by simp
  from destroy_copies [OF G2 M, of current]
  obtain w3 where
    D: "destroy_all current (replicate (min m n) ?f) w2 = Inr w3"
    and G3: "globals w3 ?x = Some \<lparr>handle' = local, ref_count = 1 + n - min m n\<rparr>"
    by blast
  have T: "take m (replicate n ?f) = replicate (min m n) ?f"
    by simp
  show ?thesis
    apply (rule exI [of _ ?f])
    apply (rule exI [of _ ?w1])
    apply (rule exI [of _ "replicate n ?f"])
    apply (rule exI [of _ w2])
    apply (rule exI [of _ w3])
    using N C D G2 G3
    apply (simp add: T IsAlive_def NewHandle_def RefCountedGlobal_IsAlive_def
        RefCountedGlobal_NewHandle_def del: take_replicate)
    done
qed

text \<open>
  C8.  When the last holder of a \<open>RefCountedGlobal\<close> is destroyed (its count is 1) by a
  thread other than the UI thread in a browser process, nothing is released by that
  thread: the deletion is posted to the UI thread, and it is the UI thread that releases
  the object when it runs what was posted.  When the last holder is destroyed on the UI
  thread, or outside a browser process, the object is released at once, by the
  destroying thread, and nothing is posted.
\<close>

theorem last_holder_release:
  assumes "globals w x = Some g" and "ref_count g = 1" and "ui_tasks w = []"
  shows "\<exists>w2. SafeV8Function_destroy current \<lparr>v8_function' = Some x\<rparr> w = Inr w2 \<and>
     (if IsBrowserProcess w \<and> current \<noteq> UI
      then globals w2 x \<noteq> None \<and> released w2 = released w \<and> ui_tasks w2 = [x] \<and>
           (\<exists>w3. RunUITasks w2 = Inr w3 \<and> globals w3 x = None \<and>
                 released w3 = released w @ [(x, UI)] \<and> ui_tasks w3 = [])
      else globals w2 x = None \<and> released w2 = released w @ [(x, current)] \<and> ui_tasks w2 = [])"
  using assms
  by (simp add: SafeV8Function_destroy_def Release_def Destruct_def CurrentlyOn_def DeleteSoon_def
      delete_RefCountedGlobal_def RunUITasks_def Let_def)

theorem last_holder_release_witness:
  "globals one_wrapper 0 = Some \<lparr>handle' = Some (V8Function (CallTranslaterTemplate 0)), ref_count = 1\<rparr> \<and>
   ref_count \<lparr>handle' = Some (V8Function (CallTranslaterTemplate 0)), ref_count = 1\<rparr> = 1 \<and>
   ui_tasks one_wrapper = [] \<and>
   (\<exists>w2. SafeV8Function_destroy IO \<lparr>v8_function' = Some 0\<rparr> one_wrapper = Inr w2 \<and>
      globals w2 0 \<noteq> None \<and> released w2 = [] \<and> ui_tasks w2 = [0] \<and>
      (\<exists>w3. RunUITasks w2 = Inr w3 \<and> globals w3 0 = None \<and>
            released w3 = [(0, UI)] \<and> ui_tasks w3 = [])) \<and>
   (\<exists>w2. SafeV8Function_destroy UI \<lparr>v8_function' = Some 0\<rparr> one_wrapper = Inr w2 \<and>
      globals w2 0 = None \<and> released w2 = [(0, UI)] \<and> ui_tasks w2 = [])"
proof -
  have A: "globals one_wrapper 0 = Some \<lparr>handle' = Some (V8Function (CallTranslaterTemplate 0)), ref_count = 1\<rparr>"
    and B: "ref_count \<lparr>handle' = Some (V8Function (CallTranslaterTemplate 0)), ref_count = 1\<rparr> = 1"
    and C: "ui_tasks one_wrapper = []"
    and D: "IsBrowserProcess one_wrapper" "released one_wrapper = []"
    by (simp_all add: one_wrapper_def SafeV8Function_new_def init_refs_def)
  from last_holder_release [OF A B C, of IO] last_holder_release [OF A B C, of UI] A B C D
  show ?thesis
    by simp
qed

text \<open>
  C9 (as stated).  One cached template per engine instance, created on the first call of
  \<open>CreateFunctionFromTranslater\<close> for that instance.  The cache \<open>g_call_translater\<close> is one
  variable of the process: when a function is generated for isolate 1 and then one for
  isolate 2, the second is an instance of the template that was created in isolate 1, and
  no template of isolate 2 is ever made.
\<close>

theorem template_per_engine_counterexample:
  "map_sum id (map instance_of \<circ> fst)
     (performs record_call [OpCreate 1 0 False, OpCreate 2 0 False] init)
     = Inr [Some (CallTranslaterTemplate 1), Some (CallTranslaterTemplate 1)]
   \<and> map_sum id (g_call_translater \<circ> snd)
     (performs record_call [OpCreate 1 0 False, OpCreate 2 0 False] init)
     = Inr (Some (CallTranslaterTemplate 1))
   \<and> map_sum id (map instance_of \<circ> fst)
     (performs record_call [OpCreate 1 0 False, OpCreate 2 0 False] init)
     \<noteq> Inr [Some (CallTranslaterTemplate 1), Some (CallTranslaterTemplate 2)]"
  by (simp add: init_def Create_eq created_function_def created_process_def
      created_template_def CreateFunctionTemplate_def)

text \<open>
  C9 (amended).  There is one cached template per process.  It is created by the first
  call of \<open>CreateFunctionFromTranslater\<close>, in the isolate of that call; whatever this
  file's operations do afterwards (generating functions for any isolate, invocations,
  collector notifications), the cache holds that same template, and every function
  generated is an instance of it.
\<close>

theorem template_cached_per_process:
  assumes "g_call_translater w0 = None"
    and "performs body (OpCreate isolate t one_time # ops) w0 = Inr (fns, w')"
  shows "g_call_translater w' = Some (CallTranslaterTemplate isolate) \<and>
     fns \<noteq> [] \<and>
     map instance_of fns = replicate (length fns) (Some (CallTranslaterTemplate isolate))"
proof -
  let ?w1 = "created_process isolate t one_time w0"
  let ?T = "CallTranslaterTemplate isolate"
  from assms(2) obtain fns2 where
    1: "performs body ops ?w1 = Inr (fns2, w')"
    and 2: "fns = created_function isolate w0 # fns2"
    by (auto simp add: Create_eq split: sum.splits)
  have 3: "g_call_translater ?w1 = Some ?T"
    using assms(1) by (simp add: created_process_def created_template_def CreateFunctionTemplate_def)
  have 4: "instance_of (created_function isolate w0) = Some ?T"
    using assms(1) by (simp add: created_function_def created_template_def CreateFunctionTemplate_def)
  from performs_keeps_template [OF 3 1] 2 4 show ?thesis
    by simp
qed

theorem template_cached_per_process_witness:
  "g_call_translater init = None \<and>
   (\<exists>fns w'. performs record_call
       [OpCreate 1 0 True, OpCreate 2 0 False,
        OpInvoke (V8BoundFunction (V8Function (CallTranslaterTemplate 1)) (V8Function (CallTranslaterTemplate 1))
                   [V8External 0, V8Object 0]) \<lparr>args_isolate = 1, argv = []\<rparr>,
        OpCollect 1] init = Inr (fns, w') \<and>
      g_call_translater w' = Some (CallTranslaterTemplate 1) \<and>
      map instance_of fns = [Some (CallTranslaterTemplate 1), Some (CallTranslaterTemplate 1)])"
proof -
  have A: "g_call_translater init = None"
    by (simp add: init_def)
  obtain fns w' where B: "performs record_call
       [OpCreate 1 0 True, OpCreate 2 0 False,
        OpInvoke (V8BoundFunction (V8Function (CallTranslaterTemplate 1)) (V8Function (CallTranslaterTemplate 1))
                   [V8External 0, V8Object 0]) \<lparr>args_isolate = 1, argv = []\<rparr>,
        OpCollect 1] init = Inr (fns, w')" and C: "length fns = 2"
    by (simp add: init_def Create_eq created_function_def created_process_def
      created_template_def CreateFunctionTemplate_def invoke_def Call_def CallTranslater_def
      Has_def Set_key_def native_run_def record_call_def delete_TranslaterHolder_def
      Reset_def ClearWeak_def ThrowError_def FireWeakCallback_def GC_def)
  from template_cached_per_process [OF A B]
  have D: "g_call_translater w' = Some (CallTranslaterTemplate 1)"
    and E: "map instance_of fns = replicate (length fns) (Some (CallTranslaterTemplate 1))"
    by simp_all
  have "replicate (length fns) (Some (CallTranslaterTemplate 1))
      = [Some (CallTranslaterTemplate 1), Some (CallTranslaterTemplate 1)]"
    unfolding C by (simp add: numeral_2_eq_2)
  with E have F: "map instance_of fns = [Some (CallTranslaterTemplate 1), Some (CallTranslaterTemplate 1)]"
    by simp
  from B D F have "\<exists>fns w'. performs record_call
       [OpCreate 1 0 True, OpCreate 2 0 False,
        OpInvoke (V8BoundFunction (V8Function (CallTranslaterTemplate 1)) (V8Function (CallTranslaterTemplate 1))
                   [V8External 0, V8Object 0]) \<lparr>args_isolate = 1, argv = []\<rparr>,
        OpCollect 1] init = Inr (fns, w') \<and>
      g_call_translater w' = Some (CallTranslaterTemplate 1) \<and>
      map instance_of fns = [Some (CallTranslaterTemplate 1), Some (CallTranslaterTemplate 1)]"
    by (intro exI conjI)
  with A show ?thesis
    by (rule conjI)
qed

text \<open>
  C10.  On the first invocation of a one-shot function whose native callback signals a
  host-visible error while running, the caller gets that error and the holder has still
  been deleted, with its weak registration, when the call returns.
\<close>

theorem deleted_even_if_callback_throws:
  assumes "body t args (native w0) = (n', Some m)"
  shows "\<exists>fn w1 w2.
     CreateFunctionFromTranslater isolate t True w0 = Inr (fn, w1) \<and>
     holders w1 (next_addr w0) = Some \<lparr>handle = Some (next_handle w0), translater = Some t\<rparr> \<and>
     invoke (native_run body) fn args w1 = Inr (Threw m, w2) \<and>
     native w2 = n' \<and>
     trace w2 = trace w1 @ [Ran (next_addr w0) args, Destroyed (next_addr w0) OneShotDelete] \<and>
     holders w2 (next_addr w0) = None \<and>
     global_handles w2 (next_handle w0) = None"
proof -
  let ?w1 = "created_process isolate t True w0"
  have L: "live (next_addr w0) (next_handle w0) (next_object w0) t True ?w1"
    by (rule live_created)
  have B: "body t args (native ?w1) = (n', Some m)"
    using assms by (simp add: created_process_def)
  from invoke_first [OF L, of body "created_template isolate w0" "V8Function (created_template isolate w0)" args]
  obtain out w2 where
    "invoke (native_run body) (created_function isolate w0) args ?w1 = Inr (out, w2)"
    "spent (next_addr w0) (next_handle w0) (next_object w0) w2"
    "trace w2 = trace ?w1 @ [Ran (next_addr w0) args, Destroyed (next_addr w0) OneShotDelete]"
    "native w2 = fst (body t args (native ?w1))"
    "\<forall>m. snd (body t args (native ?w1)) = Some m \<longrightarrow> out = Threw m"
    unfolding created_function_def by blast
  then show ?thesis
    using L B by (auto simp add: Create_eq live_def spent_def)
qed

theorem deleted_even_if_callback_throws_witness:
  "failing_call 0 \<lparr>args_isolate = 0, argv = [V8Number 7]\<rparr> (native init)
     = ([\<lparr>args_isolate = 0, argv = [V8Number 7]\<rparr>], Some ''native failure'') \<and>
   (\<exists>fn w1 w2.
     CreateFunctionFromTranslater 0 0 True init = Inr (fn, w1) \<and>
     holders w1 0 = Some \<lparr>handle = Some 0, translater = Some 0\<rparr> \<and>
     invoke (native_run failing_call) fn \<lparr>args_isolate = 0, argv = [V8Number 7]\<rparr> w1
       = Inr (Threw ''native failure'', w2) \<and>
     native w2 = [\<lparr>args_isolate = 0, argv = [V8Number 7]\<rparr>] \<and>
     trace w2 = trace w1 @ [Ran 0 \<lparr>args_isolate = 0, argv = [V8Number 7]\<rparr>, Destroyed 0 OneShotDelete] \<and>
     holders w2 0 = None \<and>
     global_handles w2 0 = None)"
  using deleted_even_if_callback_throws [of failing_call "0::nat" "\<lparr>args_isolate = 0, argv = [V8Number 7]\<rparr>"
     init "[\<lparr>args_isolate = 0, argv = [V8Number 7]\<rparr>]" "''native failure''" 0]
  by (auto simp add: init_def failing_call_def)

end
